theory Spec2Isabelle
  imports Main
begin

section \<open>Python values, exceptions and the outside world\<close>

text \<open>
  A Python \<^verbatim>\<open>str\<close> is a sequence of Unicode code points; a code point is a natural
  number. \<open>ustr\<close> reads an ASCII literal of the script as such a sequence.
\<close>

type_synonym pystr = "nat list"

definition ustr :: "string \<Rightarrow> pystr" where
  "ustr cs = map of_char cs"

text \<open>
  The values the script handles: what the decoded JSON of a search response can hold,
  and what a caller may pass as \<^verbatim>\<open>queries\<close>. A dict is an association list whose first
  binding of a key is the dict's entry for it.
\<close>

datatype pyval =
    PyNone
  | PyBool bool
  | PyInt int
  | PyStr pystr
  | PyList "pyval list"
  | PyDict "(pystr \<times> pyval) list"

text \<open>
  The exceptions, all of them subclasses of \<^verbatim>\<open>Exception\<close> (what \<^verbatim>\<open>except Exception\<close>
  catches). \<open>LibraryError\<close> is any exception class raised inside spotipy, pandas or os,
  named by its class.
\<close>

datatype exn =
    ValueError
  | FileNotFoundError
  | KeyError
  | TypeError
  | AttributeError
  | LibraryError string

text \<open>\<^verbatim>\<open>obj[key]\<close> for a string key.\<close>

fun py_getitem :: "pyval \<Rightarrow> pystr \<Rightarrow> exn + pyval" where
  "py_getitem (PyDict d) k = (case map_of d k of None \<Rightarrow> Inl KeyError | Some v \<Rightarrow> Inr v)"
| "py_getitem _ k = Inl TypeError"

text \<open>\<^verbatim>\<open>obj.get(key, default)\<close>: only a dict has the method.\<close>

fun py_get :: "pyval \<Rightarrow> pystr \<Rightarrow> pyval \<Rightarrow> exn + pyval" where
  "py_get (PyDict d) k dflt = Inr (case map_of d k of None \<Rightarrow> dflt | Some v \<Rightarrow> v)"
| "py_get _ k dflt = Inl AttributeError"

text \<open>
  \<^verbatim>\<open>for x in obj\<close>: a list gives its elements, a dict its keys, a string its characters;
  nothing else is iterable.
\<close>

fun py_iter :: "pyval \<Rightarrow> exn + pyval list" where
  "py_iter (PyList xs) = Inr xs"
| "py_iter (PyDict d) = Inr (map (\<lambda>kv. PyStr (fst kv)) d)"
| "py_iter (PyStr t) = Inr (map (\<lambda>c. PyStr [c]) t)"
| "py_iter _ = Inl TypeError"

section \<open>The keyword filter\<close>

text \<open>
  Line 59 and the pattern of line 87:
  \<^verbatim>\<open>r'\b(?:tamil|kollywood|chennai|madras|tamizh)\b'\<close> searched with \<^verbatim>\<open>re.IGNORECASE\<close>.
\<close>

definition tamil_keywords :: "pystr list" where
  "tamil_keywords =
     [ustr ''tamil'', ustr ''kollywood'', ustr ''chennai'', ustr ''madras'', ustr ''tamizh'']"

text \<open>
  \<^verbatim>\<open>\w\<close> of a str pattern: an ASCII letter, digit or underscore; beyond ASCII whatever
  the interpreter's Unicode tables call alphanumeric, which is the parameter \<open>A\<close>.
\<close>

definition is_word :: "(nat \<Rightarrow> bool) \<Rightarrow> nat \<Rightarrow> bool" where
  "is_word A c =
     (if c < 128
      then (48 \<le> c \<and> c \<le> 57) \<or> (65 \<le> c \<and> c \<le> 90) \<or> (97 \<le> c \<and> c \<le> 122) \<or> c = 95
      else A c)"

text \<open>
  A lower-case ASCII letter \<open>p\<close> of the pattern against a character \<open>c\<close> of the text under
  \<^verbatim>\<open>re.IGNORECASE\<close>: the letter, its capital, and the non-ASCII characters the \<^verbatim>\<open>re\<close>
  module folds onto it (U+0130 and U+0131 onto i, U+212A onto k, U+017F onto s).
\<close>

definition ci_match :: "nat \<Rightarrow> nat \<Rightarrow> bool" where
  "ci_match p c =
     (c = p \<or> c + 32 = p \<or> (p = 105 \<and> (c = 304 \<or> c = 305))
      \<or> (p = 107 \<and> c = 8490) \<or> (p = 115 \<and> c = 383))"

definition word_at :: "(nat \<Rightarrow> bool) \<Rightarrow> pystr \<Rightarrow> nat \<Rightarrow> bool" where
  "word_at A t i = (i < length t \<and> is_word A (t ! i))"

text \<open>\<^verbatim>\<open>\b\<close> at position \<open>i\<close>: exactly one of the two neighbours is a word character.\<close>

definition at_boundary :: "(nat \<Rightarrow> bool) \<Rightarrow> pystr \<Rightarrow> nat \<Rightarrow> bool" where
  "at_boundary A t i = ((0 < i \<and> word_at A t (i - 1)) \<noteq> word_at A t i)"

definition literal_at :: "pystr \<Rightarrow> pystr \<Rightarrow> nat \<Rightarrow> bool" where
  "literal_at kw t i =
     (i + length kw \<le> length t \<and> list_all2 ci_match kw (take (length kw) (drop i t)))"

definition match_at :: "(nat \<Rightarrow> bool) \<Rightarrow> pystr \<Rightarrow> nat \<Rightarrow> bool" where
  "match_at A t i =
     (at_boundary A t i \<and>
      list_ex (\<lambda>kw. literal_at kw t i \<and> at_boundary A t (i + length kw)) tamil_keywords)"

text \<open>\<^verbatim>\<open>re.search\<close> tries every start position; the script only tests the result for truth.\<close>

definition keyword_search :: "(nat \<Rightarrow> bool) \<Rightarrow> pystr \<Rightarrow> bool" where
  "keyword_search A t = list_ex (match_at A t) [0 ..< Suc (length t)]"

text \<open>\<^verbatim>\<open>re.search(pattern, playlist_name, re.IGNORECASE)\<close>: anything but a string raises.\<close>

fun re_search :: "(nat \<Rightarrow> bool) \<Rightarrow> pyval \<Rightarrow> exn + bool" where
  "re_search A (PyStr t) = Inr (keyword_search A t)"
| "re_search A _ = Inl TypeError"

section \<open>Records, the result table and the world\<close>

text \<open>The dict appended at lines 88 to 95, one row of the result table.\<close>

record PlaylistRecord =
  PlaylistID :: pyval
  PlaylistName :: pyval
  NumSongs :: pyval
  Query :: pyval
  Language :: pystr
  Timestamp :: pystr

text \<open>
  The result table is the sequence of its rows. The output spreadsheet is taken to hold
  rows of this shape, as the script writes them, so that \<^verbatim>\<open>pd.concat\<close> of the old table
  and the new records is the one list followed by the other.
\<close>

type_synonym ResultTable = "PlaylistRecord list"

text \<open>
  A spreadsheet file on disk: not there, there but \<^verbatim>\<open>pd.read_excel\<close> raises on it, or
  holding a sheet.
\<close>

datatype 'a xlsx = Absent | Unreadable exn | Sheet 'a

text \<open>The lines the script prints, by the \<^verbatim>\<open>print\<close> call that writes them.\<close>

datatype msg =
    SavedMsg pystr            \<comment> \<open>line 102, with the timestamp\<close>
  | RetrievalErrorMsg exn     \<comment> \<open>line 107\<close>
  | StartingMsg nat           \<comment> \<open>line 132, with the number of queries\<close>
  | CompletedMsg              \<comment> \<open>line 136\<close>
  | NoPlaylistsMsg            \<comment> \<open>line 138\<close>
  | UnexpectedErrorMsg        \<comment> \<open>line 141\<close>
  | ErrorMsg exn              \<comment> \<open>line 142\<close>

text \<open>
  What the script reads and changes: the clock, the input spreadsheet (its columns by
  name, an empty cell being \<open>PyNone\<close>), the output directory, the output spreadsheet
  and the console.
\<close>

record world =
  clock :: pystr
  queries_xlsx :: "(pystr \<times> pyval list) list xlsx"
  base_dir_exists :: bool
  output_xlsx :: "ResultTable xlsx"
  stdout :: "msg list"

text \<open>
  The collaborators outside the repository: the interpreter's Unicode table, the search
  endpoint (by the number of the call in this run and its query; type, market and limit
  are constants of line 79), and whether \<^verbatim>\<open>os.makedirs\<close> and \<^verbatim>\<open>to_excel\<close> raise. A
  \<^verbatim>\<open>to_excel\<close> that raises is taken to leave the file as it was.
\<close>

record env =
  unicode_alnum :: "nat \<Rightarrow> bool"
  sp_search :: "nat \<Rightarrow> pyval \<Rightarrow> exn + pyval"
  makedirs_raises :: "exn option"
  to_excel_raises :: "ResultTable \<Rightarrow> exn option"

definition py_print :: "msg \<Rightarrow> world \<Rightarrow> world" where
  "py_print m w = w\<lparr>stdout := stdout w @ [m]\<rparr>"

section \<open>fetch\_tamil\_playlists\<close>

text \<open>
  Lines 82 to 95, the body of the inner loop: \<open>Inl\<close> when a line raises, \<open>Inr None\<close>
  when the name does not match, \<open>Inr (Some r)\<close> with the record that is appended.
\<close>

definition playlist_record ::
  "(nat \<Rightarrow> bool) \<Rightarrow> pystr \<Rightarrow> pyval \<Rightarrow> pyval \<Rightarrow> exn + PlaylistRecord option" where
  "playlist_record A current_timestamp search_term playlist =
     (case py_get playlist (ustr ''id'') PyNone of
        Inl e \<Rightarrow> Inl e
      | Inr playlist_id \<Rightarrow>
     (case py_get playlist (ustr ''name'') (PyStr []) of
        Inl e \<Rightarrow> Inl e
      | Inr playlist_name \<Rightarrow>
     (case py_getitem playlist (ustr ''tracks'') of
        Inl e \<Rightarrow> Inl e
      | Inr tracks \<Rightarrow>
     (case py_getitem tracks (ustr ''total'') of
        Inl e \<Rightarrow> Inl e
      | Inr total_tracks \<Rightarrow>
     (case re_search A playlist_name of
        Inl e \<Rightarrow> Inl e
      | Inr found \<Rightarrow>
          Inr (if found
               then Some \<lparr>PlaylistID = playlist_id, PlaylistName = playlist_name,
                          NumSongs = total_tracks, Query = search_term,
                          Language = ustr ''Tamil'', Timestamp = current_timestamp\<rparr>
               else None))))))"

text \<open>Line 81, the loop over the items of one response.\<close>

fun playlist_loop ::
  "(nat \<Rightarrow> bool) \<Rightarrow> pystr \<Rightarrow> pyval \<Rightarrow> pyval list \<Rightarrow> ResultTable \<Rightarrow> exn + ResultTable" where
  "playlist_loop A ts search_term [] playlist_records = Inr playlist_records"
| "playlist_loop A ts search_term (playlist # rest) playlist_records =
     (case playlist_record A ts search_term playlist of
        Inl e \<Rightarrow> Inl e
      | Inr None \<Rightarrow> playlist_loop A ts search_term rest playlist_records
      | Inr (Some r) \<Rightarrow> playlist_loop A ts search_term rest (playlist_records @ [r]))"

text \<open>Lines 79 and 81: the search call and \<^verbatim>\<open>search_results['playlists']['items']\<close>.\<close>

definition search_items :: "env \<Rightarrow> nat \<Rightarrow> pyval \<Rightarrow> exn + pyval list" where
  "search_items E k search_term =
     (case sp_search E k search_term of
        Inl e \<Rightarrow> Inl e
      | Inr search_results \<Rightarrow>
     (case py_getitem search_results (ustr ''playlists'') of
        Inl e \<Rightarrow> Inl e
      | Inr playlists \<Rightarrow>
     (case py_getitem playlists (ustr ''items'') of
        Inl e \<Rightarrow> Inl e
      | Inr items \<Rightarrow> py_iter items)))"

text \<open>Line 78, the loop over the queries; \<open>k\<close> counts the search calls made so far.\<close>

fun query_loop ::
  "env \<Rightarrow> pystr \<Rightarrow> nat \<Rightarrow> pyval list \<Rightarrow> ResultTable \<Rightarrow> exn + ResultTable" where
  "query_loop E ts k [] playlist_records = Inr playlist_records"
| "query_loop E ts k (search_term # rest) playlist_records =
     (case search_items E k search_term of
        Inl e \<Rightarrow> Inl e
      | Inr items \<Rightarrow>
          (case playlist_loop (unicode_alnum E) ts search_term items playlist_records of
             Inl e \<Rightarrow> Inl e
           | Inr playlist_records' \<Rightarrow> query_loop E ts (Suc k) rest playlist_records'))"

text \<open>Lines 72 to 75: the table already on disk, empty when there is no file.\<close>

fun read_existing :: "ResultTable xlsx \<Rightarrow> exn + ResultTable" where
  "read_existing Absent = Inr []"
| "read_existing (Unreadable e) = Inl e"
| "read_existing (Sheet t) = Inr t"

text \<open>\<^verbatim>\<open>isinstance(queries, list)\<close> of line 56.\<close>

fun isinstance_list :: "pyval \<Rightarrow> bool" where
  "isinstance_list (PyList xs) = True"
| "isinstance_list _ = False"

text \<open>
  Lines 78 to 104, the body of the \<^verbatim>\<open>try\<close>: the loop, the concatenation, the write
  and the message. \<open>Inl\<close> is the exception that reaches the handler of line 106.
\<close>

definition try_body ::
  "env \<Rightarrow> pystr \<Rightarrow> pyval \<Rightarrow> ResultTable \<Rightarrow> world \<Rightarrow> exn + ResultTable \<times> world" where
  "try_body E current_timestamp queries existing_data w =
     (case py_iter queries of
        Inl e \<Rightarrow> Inl e
      | Inr qs \<Rightarrow>
     (case query_loop E current_timestamp 0 qs [] of
        Inl e \<Rightarrow> Inl e
      | Inr playlist_records \<Rightarrow>
          (let updated_df = existing_data @ playlist_records in
           case to_excel_raises E updated_df of
             Some e \<Rightarrow> Inl e
           | None \<Rightarrow>
               Inr (updated_df,
                    py_print (SavedMsg current_timestamp)
                      (w\<lparr>output_xlsx := Sheet updated_df\<rparr>)))))"

text \<open>
  The function of line 52. The first component is what the caller gets: \<open>Inl e\<close> an
  exception that leaves the function, \<open>Inr None\<close> the value \<^verbatim>\<open>None\<close> of line 108,
  \<open>Inr (Some t)\<close> the table of line 104.
\<close>

definition fetch_tamil_playlists ::
  "env \<Rightarrow> pyval \<Rightarrow> world \<Rightarrow> (exn + ResultTable option) \<times> world" where
  "fetch_tamil_playlists E queries w =
     (if \<not> isinstance_list queries then (Inl ValueError, w)
      else
        (let current_timestamp = clock w in
         case makedirs_raises E of
           Some e \<Rightarrow> (Inl e, w)
         | None \<Rightarrow>
             (let w1 = w\<lparr>base_dir_exists := True\<rparr> in
              case read_existing (output_xlsx w1) of
                Inl e \<Rightarrow> (Inl e, w1)
              | Inr existing_data \<Rightarrow>
                  (case try_body E current_timestamp queries existing_data w1 of
                     Inl e \<Rightarrow> (Inr None, py_print (RetrievalErrorMsg e) w1)
                   | Inr (updated_df, w2) \<Rightarrow> (Inr (Some updated_df), w2)))))"

section \<open>run\_tamil\_playlist\_scraper\<close>

text \<open>\<^verbatim>\<open>dropna()\<close> of line 130.\<close>

definition dropna :: "pyval list \<Rightarrow> pyval list" where
  "dropna cells = filter (\<lambda>c. c \<noteq> PyNone) cells"

text \<open>Lines 120 to 138, the body of the \<^verbatim>\<open>try\<close> of the entry routine.\<close>

definition run_body :: "env \<Rightarrow> world \<Rightarrow> (exn + unit) \<times> world" where
  "run_body E w =
     (case queries_xlsx w of
        Absent \<Rightarrow> (Inl FileNotFoundError, w)
      | Unreadable e \<Rightarrow> (Inl e, w)
      | Sheet df_queries \<Rightarrow>
          (case map_of df_queries (ustr ''Queries'') of
             None \<Rightarrow> (Inl KeyError, w)
           | Some cells \<Rightarrow>
               (let queries = dropna cells;
                    w1 = py_print (StartingMsg (length queries)) w
                in case fetch_tamil_playlists E (PyList queries) w1 of
                     (Inl e, w2) \<Rightarrow> (Inl e, w2)
                   | (Inr (Some result_df), w2) \<Rightarrow> (Inr (), py_print CompletedMsg w2)
                   | (Inr None, w2) \<Rightarrow> (Inr (), py_print NoPlaylistsMsg w2))))"

text \<open>
  The function of line 114: the body under the handler of lines 140 to 142. \<open>Inr ()\<close>
  is a normal return, \<open>Inl e\<close> an exception that leaves the function.
\<close>

definition run_tamil_playlist_scraper :: "env \<Rightarrow> world \<Rightarrow> (exn + unit) \<times> world" where
  "run_tamil_playlist_scraper E w =
     (case run_body E w of
        (Inl e, w') \<Rightarrow> (Inr (), py_print (ErrorMsg e) (py_print UnexpectedErrorMsg w'))
      | (Inr u, w') \<Rightarrow> (Inr u, w'))"

section \<open>A sample run\<close>

text \<open>
  Concrete collaborators on which the theorems below are instantiated: an endpoint that
  answers every query with the same two playlists, of which one name carries a keyword
  as a whole word, and a world with one query and no output file yet.
\<close>

definition sample_item :: "pystr \<Rightarrow> pystr \<Rightarrow> int \<Rightarrow> pyval" where
  "sample_item pid pname n =
     PyDict [(ustr ''id'', PyStr pid), (ustr ''name'', PyStr pname),
             (ustr ''tracks'', PyDict [(ustr ''total'', PyInt n)])]"

definition sample_response :: "pyval list \<Rightarrow> pyval" where
  "sample_response items = PyDict [(ustr ''playlists'', PyDict [(ustr ''items'', PyList items)])]"

definition sample_env :: env where
  "sample_env =
     \<lparr>unicode_alnum = (\<lambda>c. False),
      sp_search = (\<lambda>k q. Inr (sample_response
         [sample_item (ustr ''p1'') (ustr ''Tamil Hits'') 50,
          sample_item (ustr ''p2'') (ustr ''tamiland'') 5])),
      makedirs_raises = None,
      to_excel_raises = (\<lambda>t. None)\<rparr>"

definition sample_world :: world where
  "sample_world =
     \<lparr>clock = ustr ''2024-01-01 10:00:00'',
      queries_xlsx = Sheet [(ustr ''Queries'', [PyStr (ustr ''tamil songs''), PyNone])],
      base_dir_exists = False,
      output_xlsx = Absent,
      stdout = []\<rparr>"

definition sample_row :: PlaylistRecord where
  "sample_row =
     \<lparr>PlaylistID = PyStr (ustr ''p0''), PlaylistName = PyStr (ustr ''Chennai Gaana''),
      NumSongs = PyInt 12, Query = PyStr (ustr ''gaana''), Language = ustr ''Tamil'',
      Timestamp = ustr ''2023-12-31 09:00:00''\<rparr>"

text \<open>The row the sample endpoint's first playlist gives for the sample query.\<close>

definition sample_hit :: PlaylistRecord where
  "sample_hit =
     \<lparr>PlaylistID = PyStr (ustr ''p1''), PlaylistName = PyStr (ustr ''Tamil Hits''),
      NumSongs = PyInt 50, Query = PyStr (ustr ''tamil songs''), Language = ustr ''Tamil'',
      Timestamp = ustr ''2024-01-01 10:00:00''\<rparr>"

definition sample_queries :: pyval where
  "sample_queries = PyList [PyStr (ustr ''tamil songs'')]"

text \<open>An endpoint whose every call raises, and one whose second item has no track count.\<close>

definition failing_env :: env where
  "failing_env = sample_env\<lparr>sp_search := (\<lambda>k q. Inl (LibraryError ''SpotifyException''))\<rparr>"

definition trackless_env :: env where
  "trackless_env = sample_env\<lparr>sp_search := (\<lambda>k q. Inr (sample_response
      [sample_item (ustr ''p1'') (ustr ''Tamil Hits'') 50,
       PyDict [(ustr ''id'', PyStr (ustr ''p3'')), (ustr ''name'', PyStr (ustr ''Madras Beats''))]]))\<rparr>"

section \<open>Lemmas about the loops and the call\<close>

text \<open>
  The two loops only append: what they return from an accumulator is the accumulator
  followed by what they return from the empty list.
\<close>

lemma playlist_loop_acc:
  "playlist_loop A ts q items recs = map_sum id ((@) recs) (playlist_loop A ts q items [])"
proof (induction items arbitrary: recs)
  case Nil
  show ?case by simp
next
  case (Cons p rest)
  show ?case
  proof (cases "playlist_record A ts q p")
    case (Inl e)
    then show ?thesis by simp
  next
    case (Inr ro)
    show ?thesis
    proof (cases ro)
      case None
      with Inr Cons [of recs] show ?thesis by simp
    next
      case (Some r)
      have "playlist_loop A ts q rest (recs @ [r]) =
            map_sum id ((@) (recs @ [r])) (playlist_loop A ts q rest [])"
        by (rule Cons)
      moreover have "playlist_loop A ts q rest [r] =
            map_sum id ((@) [r]) (playlist_loop A ts q rest [])"
        by (rule Cons)
      ultimately show ?thesis using Inr Some
        by (cases "playlist_loop A ts q rest []") simp_all
    qed
  qed
qed

lemma query_loop_acc:
  "query_loop E ts k qs recs = map_sum id ((@) recs) (query_loop E ts k qs [])"
proof (induction qs arbitrary: k recs)
  case Nil
  show ?case by simp
next
  case (Cons q rest)
  show ?case
  proof (cases "search_items E k q")
    case (Inl e)
    then show ?thesis by simp
  next
    case (Inr items)
    show ?thesis
    proof (cases "playlist_loop (unicode_alnum E) ts q items []")
      case (Inl e)
      with Inr playlist_loop_acc [of "unicode_alnum E" ts q items recs] show ?thesis by simp
    next
      case inner: (Inr new)
      have 1: "playlist_loop (unicode_alnum E) ts q items recs = Inr (recs @ new)"
        using inner playlist_loop_acc [of "unicode_alnum E" ts q items recs] by simp
      have 2: "query_loop E ts (Suc k) rest (recs @ new) =
               map_sum id ((@) (recs @ new)) (query_loop E ts (Suc k) rest [])"
        by (rule Cons)
      have 3: "query_loop E ts (Suc k) rest new =
               map_sum id ((@) new) (query_loop E ts (Suc k) rest [])"
        by (rule Cons)
      show ?thesis using Inr inner 1 2 3
        by (cases "query_loop E ts (Suc k) rest []") simp_all
    qed
  qed
qed

text \<open>What a record that was appended looks like, and which records a loop that returns has appended.\<close>

lemma playlist_record_fields:
  "playlist_record A ts q p = Inr (Some r) \<Longrightarrow>
     Language r = ustr ''Tamil'' \<and> Timestamp r = ts \<and> Query r = q"
  by (auto simp: playlist_record_def split: sum.splits if_splits)

lemma playlist_record_match:
  assumes "playlist_record A ts q p = Inr ro"
    and "py_get p (ustr ''name'') (PyStr []) = Inr (PyStr pname)"
    and "keyword_search A pname"
  shows "\<exists>r. ro = Some r \<and> PlaylistName r = PyStr pname \<and>
           Inr (PlaylistID r) = py_get p (ustr ''id'') PyNone \<and> Query r = q \<and>
           Language r = ustr ''Tamil'' \<and> Timestamp r = ts"
  using assms by (auto simp: playlist_record_def split: sum.splits)

lemma playlist_loop_rows:
  "playlist_loop A ts q items [] = Inr new \<Longrightarrow>
     (\<forall>r\<in>set new. \<exists>p\<in>set items. playlist_record A ts q p = Inr (Some r)) \<and>
     (\<forall>p\<in>set items. \<exists>ro. playlist_record A ts q p = Inr ro \<and> (\<forall>r. ro = Some r \<longrightarrow> r \<in> set new))"
proof (induction items arbitrary: new)
  case Nil
  then show ?case by simp
next
  case (Cons p rest)
  show ?case
  proof (cases "playlist_record A ts q p")
    case (Inl e)
    with Cons.prems show ?thesis by simp
  next
    case (Inr ro)
    show ?thesis
    proof (cases ro)
      case None
      with Inr Cons.prems have "playlist_loop A ts q rest [] = Inr new" by simp
      from Cons.IH [OF this] Inr None show ?thesis by auto
    next
      case (Some r)
      with Inr Cons.prems have "playlist_loop A ts q rest [r] = Inr new" by simp
      then obtain new' where n: "playlist_loop A ts q rest [] = Inr new'" and e: "new = r # new'"
        using playlist_loop_acc [of A ts q rest "[r]"]
        by (cases "playlist_loop A ts q rest []") auto
      from Cons.IH [OF n] Inr Some e show ?thesis by auto
    qed
  qed
qed

lemma query_loop_rows:
  "query_loop E ts k qs [] = Inr new \<Longrightarrow>
     (\<forall>r\<in>set new. \<exists>i<length qs. \<exists>items. search_items E (k + i) (qs ! i) = Inr items \<and>
         (\<exists>p\<in>set items. playlist_record (unicode_alnum E) ts (qs ! i) p = Inr (Some r))) \<and>
     (\<forall>i<length qs. \<exists>items. search_items E (k + i) (qs ! i) = Inr items \<and>
         (\<forall>p\<in>set items. \<exists>ro. playlist_record (unicode_alnum E) ts (qs ! i) p = Inr ro \<and>
             (\<forall>r. ro = Some r \<longrightarrow> r \<in> set new)))"
proof (induction qs arbitrary: k new)
  case Nil
  then show ?case by simp
next
  case (Cons q rest)
  from Cons.prems obtain items where s: "search_items E k q = Inr items"
    by (cases "search_items E k q") auto
  from Cons.prems s obtain new1 where
    p: "playlist_loop (unicode_alnum E) ts q items [] = Inr new1"
    by (cases "playlist_loop (unicode_alnum E) ts q items []") auto
  from Cons.prems s p have "query_loop E ts (Suc k) rest new1 = Inr new" by simp
  then obtain new2 where
    r: "query_loop E ts (Suc k) rest [] = Inr new2" and e: "new = new1 @ new2"
    using query_loop_acc [of E ts "Suc k" rest new1]
    by (cases "query_loop E ts (Suc k) rest []") auto
  note h = playlist_loop_rows [OF p]
  note t = Cons.IH [OF r]
  show ?case
  proof (intro conjI ballI allI impI)
    fix x assume "x \<in> set new"
    with e consider "x \<in> set new1" | "x \<in> set new2" by auto
    then show "\<exists>i<length (q # rest). \<exists>items. search_items E (k + i) ((q # rest) ! i) = Inr items \<and>
         (\<exists>p\<in>set items. playlist_record (unicode_alnum E) ts ((q # rest) ! i) p = Inr (Some x))"
    proof cases
      case 1
      with h s show ?thesis by (intro exI [of _ 0]) auto
    next
      case 2
      with t obtain i items' where "i < length rest"
        "search_items E (Suc k + i) (rest ! i) = Inr items'"
        "\<exists>p\<in>set items'. playlist_record (unicode_alnum E) ts (rest ! i) p = Inr (Some x)"
        by blast
      then show ?thesis by (intro exI [of _ "Suc i"]) auto
    qed
  next
    fix i assume i: "i < length (q # rest)"
    show "\<exists>items. search_items E (k + i) ((q # rest) ! i) = Inr items \<and>
         (\<forall>p\<in>set items. \<exists>ro. playlist_record (unicode_alnum E) ts ((q # rest) ! i) p = Inr ro \<and>
             (\<forall>r. ro = Some r \<longrightarrow> r \<in> set new))"
    proof (cases i)
      case 0
      with h s e show ?thesis by auto
    next
      case (Suc j)
      with i have "j < length rest" by simp
      with t obtain items' where "search_items E (Suc k + j) (rest ! j) = Inr items'"
        "\<forall>p\<in>set items'. \<exists>ro. playlist_record (unicode_alnum E) ts (rest ! j) p = Inr ro \<and>
             (\<forall>r. ro = Some r \<longrightarrow> r \<in> set new2)"
        by blast
      with Suc e show ?thesis by auto
    qed
  qed
qed

text \<open>One line that raises, at any item of any query, makes the whole loop raise.\<close>

lemma playlist_loop_raises:
  "p \<in> set items \<Longrightarrow> playlist_record A ts q p = Inl e \<Longrightarrow>
     \<exists>e'. playlist_loop A ts q items recs = Inl e'"
proof (induction items arbitrary: recs)
  case Nil
  then show ?case by simp
next
  case (Cons x rest)
  show ?case
  proof (cases "playlist_record A ts q x")
    case (Inl e')
    then show ?thesis by simp
  next
    case (Inr ro)
    with Cons.prems have "p \<in> set rest" by auto
    from Cons.IH [OF this Cons.prems(2)] Inr show ?thesis by (cases ro) simp_all
  qed
qed

lemma query_loop_raises:
  assumes "i < length qs"
    and "search_items E (k + i) (qs ! i) = Inl e \<or>
         (\<exists>items p. search_items E (k + i) (qs ! i) = Inr items \<and> p \<in> set items \<and>
            playlist_record (unicode_alnum E) ts (qs ! i) p = Inl e)"
  shows "\<exists>e'. query_loop E ts k qs recs = Inl e'"
  using assms
proof (induction qs arbitrary: i k recs)
  case Nil
  then show ?case by simp
next
  case (Cons q rest)
  show ?case
  proof (cases i)
    case 0
    from Cons.prems(2) 0 consider "search_items E k q = Inl e"
      | items p where "search_items E k q = Inr items" "p \<in> set items"
          "playlist_record (unicode_alnum E) ts q p = Inl e"
      by auto
    then show ?thesis
    proof cases
      case 1
      then show ?thesis by simp
    next
      case 2
      from playlist_loop_raises [OF 2(2,3)] obtain e' where
        "playlist_loop (unicode_alnum E) ts q items recs = Inl e'" by blast
      with 2(1) show ?thesis by simp
    qed
  next
    case (Suc j)
    with Cons.prems have j: "j < length rest" by simp
    from Cons.prems(2) Suc have
      "search_items E (Suc k + j) (rest ! j) = Inl e \<or>
         (\<exists>items p. search_items E (Suc k + j) (rest ! j) = Inr items \<and> p \<in> set items \<and>
            playlist_record (unicode_alnum E) ts (rest ! j) p = Inl e)"
      by simp
    from Cons.IH [OF j this] show ?thesis by (auto split: sum.splits)
  qed
qed




text \<open>The call on a list, once the directory is made and the old table read.\<close>

lemma fetch_list_unfold:
  assumes "makedirs_raises E = None" and "read_existing (output_xlsx w) = Inr existing"
  shows "fetch_tamil_playlists E (PyList qs) w =
     (case query_loop E (clock w) 0 qs [] of
        Inl e \<Rightarrow> (Inr None, py_print (RetrievalErrorMsg e) (w\<lparr>base_dir_exists := True\<rparr>))
      | Inr new \<Rightarrow>
          (case to_excel_raises E (existing @ new) of
             Some e \<Rightarrow> (Inr None, py_print (RetrievalErrorMsg e) (w\<lparr>base_dir_exists := True\<rparr>))
           | None \<Rightarrow> (Inr (Some (existing @ new)),
               py_print (SavedMsg (clock w))
                 (w\<lparr>base_dir_exists := True, output_xlsx := Sheet (existing @ new)\<rparr>))))"
  using assms
  by (simp add: fetch_tamil_playlists_def try_body_def Let_def split: sum.splits option.splits)

lemma fetch_success_cases:
  assumes "fetch_tamil_playlists E queries w = (Inr (Some tbl), w')"
  obtains qs existing new where "queries = PyList qs" and "makedirs_raises E = None"
    and "read_existing (output_xlsx w) = Inr existing"
    and "query_loop E (clock w) 0 qs [] = Inr new"
    and "to_excel_raises E (existing @ new) = None"
    and "tbl = existing @ new"
    and "w' = py_print (SavedMsg (clock w))
                 (w\<lparr>base_dir_exists := True, output_xlsx := Sheet (existing @ new)\<rparr>)"
proof -
  from assms have l: "isinstance_list queries"
    by (auto simp: fetch_tamil_playlists_def split: if_splits)
  then obtain qs where q: "queries = PyList qs" by (cases queries) auto
  from assms q have m: "makedirs_raises E = None"
    by (auto simp: fetch_tamil_playlists_def Let_def split: option.splits)
  from assms q m obtain existing where r: "read_existing (output_xlsx w) = Inr existing"
    by (cases "read_existing (output_xlsx w)") (auto simp: fetch_tamil_playlists_def Let_def)
  from assms show ?thesis
    unfolding q fetch_list_unfold [OF m r]
    by (auto split: sum.splits option.splits intro: that [OF q m r])
qed

text \<open>The sample run, and the loop with the endpoint that raises.\<close>

lemma sample_run:
  "fetch_tamil_playlists sample_env sample_queries (sample_world\<lparr>output_xlsx := Sheet [sample_row]\<rparr>) =
     (Inr (Some [sample_row, sample_hit]),
      sample_world\<lparr>base_dir_exists := True, output_xlsx := Sheet [sample_row, sample_hit],
                   stdout := [SavedMsg (ustr ''2024-01-01 10:00:00'')]\<rparr>)"
  by code_simp

lemma failing_loop:
  "query_loop failing_env (clock sample_world) 0 [PyStr (ustr ''tamil songs'')] [] =
     Inl (LibraryError ''SpotifyException'')"
  by (simp add: failing_env_def search_items_def)

lemma failing_try:
  "try_body failing_env (clock sample_world) (PyList [PyStr (ustr ''tamil songs'')]) []
      (sample_world\<lparr>base_dir_exists := True\<rparr>) = Inl (LibraryError ''SpotifyException'')"
  using failing_loop by (simp add: try_body_def)

lemma keyword_search_empty: "\<not> keyword_search A []"
  by (simp add: keyword_search_def match_at_def literal_at_def tamil_keywords_def ustr_def)

text \<open>
  The search in terms of the name's text: a match at a position is a split of the rest of
  the name into a word that is a keyword up to case and a suffix, with a boundary before
  and after the word.
\<close>

lemma tamil_keywords_nonempty: "kw \<in> set tamil_keywords \<Longrightarrow> kw \<noteq> []"
  by (auto simp: tamil_keywords_def ustr_def)

lemma keyword_search_iff: "keyword_search A t \<longleftrightarrow> (\<exists>i\<le>length t. match_at A t i)"
proof -
  have "set [0 ..< Suc (length t)] = {i. i \<le> length t}" by auto
  then show ?thesis unfolding keyword_search_def list_ex_iff by blast
qed

lemma at_boundary_append:
  "at_boundary A (xs @ ys) (length xs) =
     ((xs \<noteq> [] \<and> is_word A (last xs)) \<noteq> (ys \<noteq> [] \<and> is_word A (hd ys)))"
proof -
  have 1: "(0 < length xs \<and> word_at A (xs @ ys) (length xs - 1)) = (xs \<noteq> [] \<and> is_word A (last xs))"
    by (cases xs rule: rev_cases) (simp_all add: word_at_def nth_append)
  have 2: "word_at A (xs @ ys) (length xs) = (ys \<noteq> [] \<and> is_word A (hd ys))"
    by (cases ys) (simp_all add: word_at_def)
  show ?thesis unfolding at_boundary_def 1 2 ..
qed

lemma literal_at_append:
  "literal_at kw (pre @ rest) (length pre) \<longleftrightarrow>
     (\<exists>w suf. rest = w @ suf \<and> list_all2 ci_match kw w)"
proof
  assume l: "literal_at kw (pre @ rest) (length pre)"
  then have "rest = take (length kw) rest @ drop (length kw) rest \<and>
             list_all2 ci_match kw (take (length kw) rest)"
    by (simp add: literal_at_def)
  then show "\<exists>w suf. rest = w @ suf \<and> list_all2 ci_match kw w" by blast
next
  assume "\<exists>w suf. rest = w @ suf \<and> list_all2 ci_match kw w"
  then obtain w suf where r: "rest = w @ suf" and m: "list_all2 ci_match kw w" by blast
  from m have "length kw = length w" by (rule list_all2_lengthD)
  with r m show "literal_at kw (pre @ rest) (length pre)"
    by (simp add: literal_at_def)
qed

lemma match_at_iff:
  "match_at A (pre @ rest) (length pre) \<longleftrightarrow>
     (\<exists>kw\<in>set tamil_keywords. \<exists>w suf. rest = w @ suf \<and> list_all2 ci_match kw w \<and>
        ((pre \<noteq> [] \<and> is_word A (last pre)) \<noteq> is_word A (hd w)) \<and>
        (is_word A (last w) \<noteq> (suf \<noteq> [] \<and> is_word A (hd suf))))"
proof
  assume "match_at A (pre @ rest) (length pre)"
  then obtain kw where b1: "at_boundary A (pre @ rest) (length pre)"
    and kw: "kw \<in> set tamil_keywords"
    and l: "literal_at kw (pre @ rest) (length pre)"
    and b2: "at_boundary A (pre @ rest) (length pre + length kw)"
    by (auto simp: match_at_def list_ex_iff)
  from l obtain w suf where r: "rest = w @ suf" and m: "list_all2 ci_match kw w"
    unfolding literal_at_append by blast
  from m have len: "length kw = length w" by (rule list_all2_lengthD)
  with tamil_keywords_nonempty [OF kw] have ne: "w \<noteq> []" by auto
  from b1 r ne have w1: "(pre \<noteq> [] \<and> is_word A (last pre)) \<noteq> is_word A (hd w)"
    by (simp add: at_boundary_append)
  from b2 len r have "at_boundary A ((pre @ w) @ suf) (length (pre @ w))" by simp
  with ne have w2: "is_word A (last w) \<noteq> (suf \<noteq> [] \<and> is_word A (hd suf))"
    unfolding at_boundary_append by simp
  from kw r m w1 w2 show "\<exists>kw\<in>set tamil_keywords. \<exists>w suf. rest = w @ suf \<and> list_all2 ci_match kw w \<and>
        ((pre \<noteq> [] \<and> is_word A (last pre)) \<noteq> is_word A (hd w)) \<and>
        (is_word A (last w) \<noteq> (suf \<noteq> [] \<and> is_word A (hd suf)))"
    by blast
next
  assume "\<exists>kw\<in>set tamil_keywords. \<exists>w suf. rest = w @ suf \<and> list_all2 ci_match kw w \<and>
        ((pre \<noteq> [] \<and> is_word A (last pre)) \<noteq> is_word A (hd w)) \<and>
        (is_word A (last w) \<noteq> (suf \<noteq> [] \<and> is_word A (hd suf)))"
  then obtain kw w suf where kw: "kw \<in> set tamil_keywords" and r: "rest = w @ suf"
    and m: "list_all2 ci_match kw w"
    and w1: "(pre \<noteq> [] \<and> is_word A (last pre)) \<noteq> is_word A (hd w)"
    and w2: "is_word A (last w) \<noteq> (suf \<noteq> [] \<and> is_word A (hd suf))"
    by blast
  from m have len: "length kw = length w" by (rule list_all2_lengthD)
  with tamil_keywords_nonempty [OF kw] have ne: "w \<noteq> []" by auto
  from w1 r ne have b1: "at_boundary A (pre @ rest) (length pre)"
    by (simp add: at_boundary_append)
  from r m have l: "literal_at kw (pre @ rest) (length pre)"
    unfolding literal_at_append by blast
  from w2 ne have "at_boundary A ((pre @ w) @ suf) (length (pre @ w))"
    unfolding at_boundary_append by simp
  with len r have b2: "at_boundary A (pre @ rest) (length pre + length kw)" by simp
  from b1 kw l b2 show "match_at A (pre @ rest) (length pre)"
    by (auto simp: match_at_def list_ex_iff)
qed

lemma keyword_search_whole_word:
  "keyword_search A t \<longleftrightarrow>
     (\<exists>pre w suf. t = pre @ w @ suf \<and>
        (\<exists>kw\<in>set tamil_keywords. list_all2 ci_match kw w) \<and>
        ((pre \<noteq> [] \<and> is_word A (last pre)) \<noteq> is_word A (hd w)) \<and>
        (is_word A (last w) \<noteq> (suf \<noteq> [] \<and> is_word A (hd suf))))"
proof
  assume "keyword_search A t"
  then obtain i where i: "i \<le> length t" and m: "match_at A t i"
    unfolding keyword_search_iff by blast
  from i have "match_at A (take i t @ drop i t) (length (take i t))"
    using m by simp
  then obtain kw w suf where "kw \<in> set tamil_keywords" "drop i t = w @ suf"
    "list_all2 ci_match kw w"
    "(take i t \<noteq> [] \<and> is_word A (last (take i t))) \<noteq> is_word A (hd w)"
    "is_word A (last w) \<noteq> (suf \<noteq> [] \<and> is_word A (hd suf))"
    unfolding match_at_iff by blast
  moreover from this(2) have "t = take i t @ w @ suf"
    by (metis append_take_drop_id)
  ultimately show "\<exists>pre w suf. t = pre @ w @ suf \<and>
        (\<exists>kw\<in>set tamil_keywords. list_all2 ci_match kw w) \<and>
        ((pre \<noteq> [] \<and> is_word A (last pre)) \<noteq> is_word A (hd w)) \<and>
        (is_word A (last w) \<noteq> (suf \<noteq> [] \<and> is_word A (hd suf)))"
    by blast
next
  assume "\<exists>pre w suf. t = pre @ w @ suf \<and>
        (\<exists>kw\<in>set tamil_keywords. list_all2 ci_match kw w) \<and>
        ((pre \<noteq> [] \<and> is_word A (last pre)) \<noteq> is_word A (hd w)) \<and>
        (is_word A (last w) \<noteq> (suf \<noteq> [] \<and> is_word A (hd suf)))"
  then obtain pre w suf kw where t: "t = pre @ w @ suf" and "kw \<in> set tamil_keywords"
    "list_all2 ci_match kw w"
    "(pre \<noteq> [] \<and> is_word A (last pre)) \<noteq> is_word A (hd w)"
    "is_word A (last w) \<noteq> (suf \<noteq> [] \<and> is_word A (hd suf))"
    by blast
  then have "match_at A (pre @ w @ suf) (length pre)"
    unfolding match_at_iff by blast
  with t show "keyword_search A t"
    unfolding keyword_search_iff by (intro exI [of _ "length pre"]) simp
qed

lemma tamil_hits_matches:
  assumes "pre = [] \<or> \<not> is_word A (last pre)"
  shows "keyword_search A (pre @ ustr ''Tamil Hits'' @ suf)"
proof -
  have k: "ustr ''tamil'' \<in> set tamil_keywords" by (simp add: tamil_keywords_def)
  have m: "list_all2 ci_match (ustr ''tamil'') (ustr ''Tamil'')"
    by (simp add: ustr_def ci_match_def)
  have s: "ustr ''Tamil Hits'' @ suf = ustr ''Tamil'' @ (ustr '' Hits'' @ suf)"
    by (simp add: ustr_def)
  have b1: "(pre \<noteq> [] \<and> is_word A (last pre)) \<noteq> is_word A (hd (ustr ''Tamil''))"
    using assms by (auto simp: ustr_def is_word_def)
  have b2: "is_word A (last (ustr ''Tamil'')) \<noteq>
            (ustr '' Hits'' @ suf \<noteq> [] \<and> is_word A (hd (ustr '' Hits'' @ suf)))"
    by (simp add: ustr_def is_word_def)
  from k m b1 b2 show ?thesis
    unfolding keyword_search_whole_word s by blast
qed

lemma first_letter: "list_all2 ci_match (p # ps) w \<Longrightarrow> ci_match p (hd w)"
  by (cases w) simp_all

lemma tamiland_not_matched_here:
  "\<not> match_at A (pre @ ustr ''tamiland'' @ suf) (length pre)"
proof
  assume "match_at A (pre @ ustr ''tamiland'' @ suf) (length pre)"
  then obtain kw w suf' where kw: "kw \<in> set tamil_keywords"
    and r: "ustr ''tamiland'' @ suf = w @ suf'"
    and m: "list_all2 ci_match kw w"
    and b: "is_word A (last w) \<noteq> (suf' \<noteq> [] \<and> is_word A (hd suf'))"
    unfolding match_at_iff by blast
  from m have len: "length w = length kw" by (simp add: list_all2_lengthD)
  from r have w: "w = take (length w) (ustr ''tamiland'' @ suf)"
    and s: "suf' = drop (length w) (ustr ''tamiland'' @ suf)"
    by simp_all
  from len tamil_keywords_nonempty [OF kw] have "w \<noteq> []" by auto
  then have "hd w = hd (w @ suf')" by simp
  also from r have "\<dots> = hd (ustr ''tamiland'' @ suf)" by simp
  also have "\<dots> = 116" by (simp add: ustr_def)
  finally have h: "hd w = 116" .
  from kw consider "kw = ustr ''tamil''" | "kw = ustr ''kollywood''" | "kw = ustr ''chennai''"
    | "kw = ustr ''madras''" | "kw = ustr ''tamizh''"
    by (auto simp: tamil_keywords_def)
  then show False
  proof cases
    case 1
    with len have l5: "length w = 5" by (simp add: ustr_def)
    from w l5 have "w = take 5 (ustr ''tamiland'' @ suf)" by simp
    then have w5: "w = ustr ''tamil''" by (simp add: ustr_def)
    from s l5 have "suf' = drop 5 (ustr ''tamiland'' @ suf)" by simp
    then have s5: "suf' = ustr ''and'' @ suf" by (simp add: ustr_def)
    from b show False unfolding w5 s5 by (simp add: ustr_def is_word_def)
  next
    case 2
    with len have l: "length w = 9" by (simp add: ustr_def)
    from m 2 have "list_all2 ci_match (107 # ustr ''ollywood'') w" by (simp add: ustr_def)
    then have "ci_match 107 (hd w)" by (rule first_letter)
    with h show False by (simp add: ci_match_def)
  next
    case 3
    with len have l: "length w = 7" by (simp add: ustr_def)
    from m 3 have "list_all2 ci_match (99 # ustr ''hennai'') w" by (simp add: ustr_def)
    then have "ci_match 99 (hd w)" by (rule first_letter)
    with h show False by (simp add: ci_match_def)
  next
    case 4
    with len have l: "length w = 6" by (simp add: ustr_def)
    from m 4 have "list_all2 ci_match (109 # ustr ''adras'') w" by (simp add: ustr_def)
    then have "ci_match 109 (hd w)" by (rule first_letter)
    with h show False by (simp add: ci_match_def)
  next
    case 5
    with len have l: "length w = 6" by (simp add: ustr_def)
    from w l have "w = take 6 (ustr ''tamiland'' @ suf)" by simp
    then have "w = ustr ''tamila''" by (simp add: ustr_def)
    with m 5 show False by (simp add: ustr_def ci_match_def)
  qed
qed

lemma tamiland_no_match: "\<not> keyword_search A (ustr ''tamiland'')"
  by code_simp

lemma tamiland_no_record:
  assumes "map_of d (ustr ''name'') = Some (PyStr (ustr ''tamiland''))"
  shows "playlist_record A ts q (PyDict d) \<noteq> Inr (Some r)"
  using assms tamiland_no_match [of A]
  by (auto simp: playlist_record_def split: sum.splits)


lemma trackless_items:
  "search_items trackless_env 0 (PyStr (ustr ''tamil songs'')) =
     Inr [sample_item (ustr ''p1'') (ustr ''Tamil Hits'') 50,
          PyDict [(ustr ''id'', PyStr (ustr ''p3'')), (ustr ''name'', PyStr (ustr ''Madras Beats''))]]"
  by (simp add: trackless_env_def search_items_def sample_response_def ustr_def)

section \<open>The claims\<close>

text \<open>
  Claim C1, as amended. The filter is a case-insensitive whole-word search for one of the
  five keywords: a name matches exactly when it splits into a prefix, a word that is a
  keyword up to case, and a suffix, with a word boundary on both sides of the word. The
  occurrence of ``tamil'' at the start of a ``tamiland'' is never such a match, so the
  name ``tamiland'' does not match and no record is made for an item of that name; a name
  in which ``Tamil Hits'' stands at the start or after a non-word character matches.
  A name that merely contains ``tamiland'' can still match through another occurrence of
  a keyword, and one that contains ``Tamil Hits'' after a word character does not match
  through it: the counterexample gives both.
\<close>

theorem keyword_filter_whole_word:
  "(keyword_search A t \<longleftrightarrow>
     (\<exists>pre w suf. t = pre @ w @ suf \<and>
        (\<exists>kw\<in>set tamil_keywords. list_all2 ci_match kw w) \<and>
        ((pre \<noteq> [] \<and> is_word A (last pre)) \<noteq> is_word A (hd w)) \<and>
        (is_word A (last w) \<noteq> (suf \<noteq> [] \<and> is_word A (hd suf))))) \<and>
   set tamil_keywords =
     {ustr ''tamil'', ustr ''kollywood'', ustr ''chennai'', ustr ''madras'', ustr ''tamizh''} \<and>
   \<not> keyword_search A (ustr ''tamiland'') \<and>
   \<not> match_at A (before @ ustr ''tamiland'' @ after) (length before) \<and>
   (map_of d (ustr ''name'') = Some (PyStr (ustr ''tamiland'')) \<longrightarrow>
      playlist_record A ts q (PyDict d) \<noteq> Inr (Some r)) \<and>
   (before = [] \<or> \<not> is_word A (last before) \<longrightarrow>
      keyword_search A (before @ ustr ''Tamil Hits'' @ after))"
proof (intro conjI impI)
  show "keyword_search A t \<longleftrightarrow>
     (\<exists>pre w suf. t = pre @ w @ suf \<and>
        (\<exists>kw\<in>set tamil_keywords. list_all2 ci_match kw w) \<and>
        ((pre \<noteq> [] \<and> is_word A (last pre)) \<noteq> is_word A (hd w)) \<and>
        (is_word A (last w) \<noteq> (suf \<noteq> [] \<and> is_word A (hd suf))))"
    by (rule keyword_search_whole_word)
  show "set tamil_keywords =
     {ustr ''tamil'', ustr ''kollywood'', ustr ''chennai'', ustr ''madras'', ustr ''tamizh''}"
    by (simp add: tamil_keywords_def)
  show "\<not> keyword_search A (ustr ''tamiland'')" by (rule tamiland_no_match)
  show "\<not> match_at A (before @ ustr ''tamiland'' @ after) (length before)"
    by (rule tamiland_not_matched_here)
  show "playlist_record A ts q (PyDict d) \<noteq> Inr (Some r)"
    if "map_of d (ustr ''name'') = Some (PyStr (ustr ''tamiland''))"
    using that by (rule tamiland_no_record)
  show "keyword_search A (before @ ustr ''Tamil Hits'' @ after)"
    if "before = [] \<or> \<not> is_word A (last before)"
    using that by (rule tamil_hits_matches)
qed

theorem keyword_filter_whole_word_witness:
  "keyword_search (unicode_alnum sample_env) (ustr ''Best '' @ ustr ''Tamil Hits'' @ ustr '' 2024'') \<and>
   \<not> keyword_search (unicode_alnum sample_env) (ustr ''tamiland'') \<and>
   playlist_record (unicode_alnum sample_env) (clock sample_world) (PyStr (ustr ''tamil songs''))
     (sample_item (ustr ''p2'') (ustr ''tamiland'') 5) \<noteq> Inr (Some sample_hit)"
proof -
  have 1: "ustr ''Best '' = [] \<or> \<not> is_word (unicode_alnum sample_env) (last (ustr ''Best ''))"
    by (simp add: ustr_def is_word_def)
  have 2: "map_of [(ustr ''id'', PyStr (ustr ''p2'')), (ustr ''name'', PyStr (ustr ''tamiland'')),
             (ustr ''tracks'', PyDict [(ustr ''total'', PyInt 5)])] (ustr ''name'') =
           Some (PyStr (ustr ''tamiland''))"
    by (simp add: ustr_def)
  note th = keyword_filter_whole_word [where A = "unicode_alnum sample_env" and before = "ustr ''Best ''"
      and after = "ustr '' 2024''" and ts = "clock sample_world"
      and q = "PyStr (ustr ''tamil songs'')" and r = sample_hit
      and d = "[(ustr ''id'', PyStr (ustr ''p2'')), (ustr ''name'', PyStr (ustr ''tamiland'')),
             (ustr ''tracks'', PyDict [(ustr ''total'', PyInt 5)])]"]
  note rest = th [THEN conjunct2, THEN conjunct2]
  note a = rest [THEN conjunct1]
  note b = rest [THEN conjunct2, THEN conjunct2, THEN conjunct1, THEN mp, OF 2]
  note c = rest [THEN conjunct2, THEN conjunct2, THEN conjunct2, THEN mp, OF 1]
  show ?thesis unfolding sample_item_def by (intro conjI, rule c, rule a, rule b)
qed

theorem tamiland_substring_counterexample:
  "keyword_search (unicode_alnum sample_env) (ustr ''tamiland'' @ ustr '' tamil'') \<and>
   playlist_record (unicode_alnum sample_env) (clock sample_world) (PyStr (ustr ''tamil songs''))
     (sample_item (ustr ''p4'') (ustr ''tamiland'' @ ustr '' tamil'') 7) =
     Inr (Some \<lparr>PlaylistID = PyStr (ustr ''p4''),
                PlaylistName = PyStr (ustr ''tamiland'' @ ustr '' tamil''),
                NumSongs = PyInt 7, Query = PyStr (ustr ''tamil songs''),
                Language = ustr ''Tamil'', Timestamp = clock sample_world\<rparr>) \<and>
   \<not> keyword_search (unicode_alnum sample_env) (ustr ''My'' @ ustr ''Tamil Hits'')"
  by code_simp



text \<open>
  Claim C3. For the empty list of queries the call returns a table exactly when the
  directory can be made, the old table read and the write succeeds, and the table it
  returns and leaves in the output file is then the old table, with no row added.
\<close>

theorem empty_queries_keep_table: "fetch_tamil_playlists E (PyList []) w = (Inr (Some tbl), w') \<longleftrightarrow>
    makedirs_raises E = None \<and> read_existing (output_xlsx w) = Inr tbl \<and>
    to_excel_raises E tbl = None \<and>
    w' = py_print (SavedMsg (clock w)) (w\<lparr>base_dir_exists := True, output_xlsx := Sheet tbl\<rparr>)"
proof
  assume "fetch_tamil_playlists E (PyList []) w = (Inr (Some tbl), w')"
  then show "makedirs_raises E = None \<and> read_existing (output_xlsx w) = Inr tbl \<and>
    to_excel_raises E tbl = None \<and>
    w' = py_print (SavedMsg (clock w)) (w\<lparr>base_dir_exists := True, output_xlsx := Sheet tbl\<rparr>)"
    by (elim fetch_success_cases) auto
next
  assume "makedirs_raises E = None \<and> read_existing (output_xlsx w) = Inr tbl \<and>
    to_excel_raises E tbl = None \<and>
    w' = py_print (SavedMsg (clock w)) (w\<lparr>base_dir_exists := True, output_xlsx := Sheet tbl\<rparr>)"
  then show "fetch_tamil_playlists E (PyList []) w = (Inr (Some tbl), w')"
    by (simp add: fetch_list_unfold)
qed

theorem empty_queries_keep_table_witness:
  "fetch_tamil_playlists sample_env (PyList []) (sample_world\<lparr>output_xlsx := Sheet [sample_row]\<rparr>) =
     (Inr (Some [sample_row]),
      py_print (SavedMsg (clock sample_world))
        (sample_world\<lparr>base_dir_exists := True, output_xlsx := Sheet [sample_row]\<rparr>))"
  using empty_queries_keep_table [of sample_env "sample_world\<lparr>output_xlsx := Sheet [sample_row]\<rparr>" "[sample_row]"
      "py_print (SavedMsg (clock sample_world))
        (sample_world\<lparr>base_dir_exists := True, output_xlsx := Sheet [sample_row]\<rparr>)"]
  by (simp add: sample_env_def sample_world_def)

text \<open>
  Claim C4. A run that returns a table returns, and leaves in the output file, the old
  table followed by the records the loop collected from the empty list: the old rows come
  first, in their order, then the new ones.
\<close>

theorem new_rows_follow_existing:
  assumes "fetch_tamil_playlists E queries w = (Inr (Some tbl), w')"
  shows "\<exists>qs existing new. queries = PyList qs \<and>
           read_existing (output_xlsx w) = Inr existing \<and>
           query_loop E (clock w) 0 qs [] = Inr new \<and>
           tbl = existing @ new \<and> output_xlsx w' = Sheet tbl"
  using assms by (elim fetch_success_cases) (simp add: py_print_def)

theorem new_rows_follow_existing_witness:
  "\<exists>qs existing new. sample_queries = PyList qs \<and>
      read_existing (output_xlsx (sample_world\<lparr>output_xlsx := Sheet [sample_row]\<rparr>)) = Inr existing \<and>
      query_loop sample_env (clock (sample_world\<lparr>output_xlsx := Sheet [sample_row]\<rparr>)) 0 qs [] = Inr new \<and>
      [sample_row, sample_hit] = existing @ new \<and>
      output_xlsx (sample_world\<lparr>base_dir_exists := True, output_xlsx := Sheet [sample_row, sample_hit],
                   stdout := [SavedMsg (ustr ''2024-01-01 10:00:00'')]\<rparr>) = Sheet [sample_row, sample_hit]"
  by (rule new_rows_follow_existing [OF sample_run])



text \<open>
  Claim C6. In a run that returns a table, every new row has the language ``Tamil'', the
  timestamp read once at the start of the call, and one of the queries as its query; and
  for every query, every item of its response whose name matches the filter has a new
  row with that name, the item's identifier, that query, the language ``Tamil'' and that
  timestamp.
\<close>

theorem records_tagged_with_query_and_timestamp:
  assumes "fetch_tamil_playlists E (PyList qs) w = (Inr (Some tbl), w')"
  shows "\<exists>existing new. read_existing (output_xlsx w) = Inr existing \<and> tbl = existing @ new \<and>
     (\<forall>r\<in>set new. Language r = ustr ''Tamil'' \<and> Timestamp r = clock w \<and> Query r \<in> set qs) \<and>
     (\<forall>i<length qs. \<exists>items. search_items E i (qs ! i) = Inr items \<and>
        (\<forall>p\<in>set items. \<forall>pname.
           py_get p (ustr ''name'') (PyStr []) = Inr (PyStr pname) \<and>
           keyword_search (unicode_alnum E) pname \<longrightarrow>
           (\<exists>r\<in>set new. PlaylistName r = PyStr pname \<and>
              Inr (PlaylistID r) = py_get p (ustr ''id'') PyNone \<and> Query r = qs ! i \<and>
              Language r = ustr ''Tamil'' \<and> Timestamp r = clock w)))"
  using assms
proof (rule fetch_success_cases)
  fix qs' existing new
  assume q: "PyList qs = PyList qs'" and r: "read_existing (output_xlsx w) = Inr existing"
    and l: "query_loop E (clock w) 0 qs' [] = Inr new" and t: "tbl = existing @ new"
  from q l have l': "query_loop E (clock w) 0 qs [] = Inr new" by simp
  note rows1 = query_loop_rows [OF l', THEN conjunct1, rule_format]
  note rows2 = query_loop_rows [OF l', THEN conjunct2, rule_format]
  have tags: "\<forall>r\<in>set new. Language r = ustr ''Tamil'' \<and> Timestamp r = clock w \<and> Query r \<in> set qs"
  proof
    fix x assume "x \<in> set new"
    from rows1 [OF this] obtain i items p where i: "i < length qs"
      and p: "playlist_record (unicode_alnum E) (clock w) (qs ! i) p = Inr (Some x)"
      by auto
    from playlist_record_fields [OF p] i
    show "Language x = ustr ''Tamil'' \<and> Timestamp x = clock w \<and> Query x \<in> set qs"
      by simp
  qed
  have added: "\<forall>i<length qs. \<exists>items. search_items E i (qs ! i) = Inr items \<and>
        (\<forall>p\<in>set items. \<forall>pname.
           py_get p (ustr ''name'') (PyStr []) = Inr (PyStr pname) \<and>
           keyword_search (unicode_alnum E) pname \<longrightarrow>
           (\<exists>r\<in>set new. PlaylistName r = PyStr pname \<and>
              Inr (PlaylistID r) = py_get p (ustr ''id'') PyNone \<and> Query r = qs ! i \<and>
              Language r = ustr ''Tamil'' \<and> Timestamp r = clock w))"
  proof (intro allI impI)
    fix i assume i: "i < length qs"
    from rows2 [OF i] obtain items where s: "search_items E (0 + i) (qs ! i) = Inr items"
      and a: "\<forall>p\<in>set items. \<exists>ro. playlist_record (unicode_alnum E) (clock w) (qs ! i) p = Inr ro \<and>
             (\<forall>r. ro = Some r \<longrightarrow> r \<in> set new)"
      by auto
    have m: "\<forall>p\<in>set items. \<forall>pname.
           py_get p (ustr ''name'') (PyStr []) = Inr (PyStr pname) \<and>
           keyword_search (unicode_alnum E) pname \<longrightarrow>
           (\<exists>r\<in>set new. PlaylistName r = PyStr pname \<and>
              Inr (PlaylistID r) = py_get p (ustr ''id'') PyNone \<and> Query r = qs ! i \<and>
              Language r = ustr ''Tamil'' \<and> Timestamp r = clock w)"
    proof (intro ballI allI impI)
      fix p pname assume p: "p \<in> set items"
        and m: "py_get p (ustr ''name'') (PyStr []) = Inr (PyStr pname) \<and>
           keyword_search (unicode_alnum E) pname"
      from a [rule_format, OF p] obtain ro where
        ro: "playlist_record (unicode_alnum E) (clock w) (qs ! i) p = Inr ro"
        and mem: "\<forall>r. ro = Some r \<longrightarrow> r \<in> set new" by auto
      from playlist_record_match [OF ro m [THEN conjunct1] m [THEN conjunct2]]
      obtain x where x: "ro = Some x" and f: "PlaylistName x = PyStr pname \<and>
           Inr (PlaylistID x) = py_get p (ustr ''id'') PyNone \<and> Query x = qs ! i \<and>
           Language x = ustr ''Tamil'' \<and> Timestamp x = clock w"
        by auto
      from mem x have xin: "x \<in> set new" by simp
      show "\<exists>r\<in>set new. PlaylistName r = PyStr pname \<and>
              Inr (PlaylistID r) = py_get p (ustr ''id'') PyNone \<and> Query r = qs ! i \<and>
              Language r = ustr ''Tamil'' \<and> Timestamp r = clock w"
      proof (rule bexI)
        show "x \<in> set new" by (rule xin)
        show "PlaylistName x = PyStr pname \<and>
           Inr (PlaylistID x) = py_get p (ustr ''id'') PyNone \<and> Query x = qs ! i \<and>
           Language x = ustr ''Tamil'' \<and> Timestamp x = clock w" by (rule f)
      qed
    qed
    from s have s': "search_items E i (qs ! i) = Inr items" by simp
    show "\<exists>items. search_items E i (qs ! i) = Inr items \<and>
        (\<forall>p\<in>set items. \<forall>pname.
           py_get p (ustr ''name'') (PyStr []) = Inr (PyStr pname) \<and>
           keyword_search (unicode_alnum E) pname \<longrightarrow>
           (\<exists>r\<in>set new. PlaylistName r = PyStr pname \<and>
              Inr (PlaylistID r) = py_get p (ustr ''id'') PyNone \<and> Query r = qs ! i \<and>
              Language r = ustr ''Tamil'' \<and> Timestamp r = clock w))"
      by (rule exI [of _ items], rule conjI, rule s', rule m)
  qed
  show ?thesis
    by (rule exI [of _ existing], rule exI [of _ new], intro conjI, rule r, rule t, rule tags,
        rule added)
qed

theorem records_tagged_with_query_and_timestamp_witness:
  "\<exists>existing new.
     read_existing (output_xlsx (sample_world\<lparr>output_xlsx := Sheet [sample_row]\<rparr>)) = Inr existing \<and>
     [sample_row, sample_hit] = existing @ new \<and>
     (\<forall>r\<in>set new. Language r = ustr ''Tamil'' \<and>
        Timestamp r = clock (sample_world\<lparr>output_xlsx := Sheet [sample_row]\<rparr>) \<and>
        Query r \<in> set [PyStr (ustr ''tamil songs'')]) \<and>
     (\<forall>i<length [PyStr (ustr ''tamil songs'')].
        \<exists>items. search_items sample_env i ([PyStr (ustr ''tamil songs'')] ! i) = Inr items \<and>
        (\<forall>p\<in>set items. \<forall>pname.
           py_get p (ustr ''name'') (PyStr []) = Inr (PyStr pname) \<and>
           keyword_search (unicode_alnum sample_env) pname \<longrightarrow>
           (\<exists>r\<in>set new. PlaylistName r = PyStr pname \<and>
              Inr (PlaylistID r) = py_get p (ustr ''id'') PyNone \<and>
              Query r = [PyStr (ustr ''tamil songs'')] ! i \<and>
              Language r = ustr ''Tamil'' \<and>
              Timestamp r = clock (sample_world\<lparr>output_xlsx := Sheet [sample_row]\<rparr>))))"
  by (rule records_tagged_with_query_and_timestamp [OF sample_run [unfolded sample_queries_def]])

text \<open>
  Claim C7, as amended. An exception leaves the call exactly when the input is not a list
  (the \<^verbatim>\<open>ValueError\<close> of line 57), when the directory cannot be made, or when the old
  table cannot be read: lines 56 to 75 stand before the \<^verbatim>\<open>try\<close>. Once these have passed,
  the call returns \<^verbatim>\<open>None\<close> exactly when the body of the \<^verbatim>\<open>try\<close> raises. What leaves the
  call is caught by the entry routine, which always returns normally. The counterexample
  is the call on \<^verbatim>\<open>None\<close>, which raises instead of returning the sentinel.
\<close>

theorem only_setup_errors_escape:
  "(fst (fetch_tamil_playlists E queries w) = Inl e \<longleftrightarrow>
      (\<not> isinstance_list queries \<and> e = ValueError) \<or>
      (isinstance_list queries \<and> makedirs_raises E = Some e) \<or>
      (isinstance_list queries \<and> makedirs_raises E = None \<and> output_xlsx w = Unreadable e)) \<and>
   (isinstance_list queries \<and> makedirs_raises E = None \<and>
    read_existing (output_xlsx w) = Inr existing \<longrightarrow>
      (fst (fetch_tamil_playlists E queries w) = Inr None \<longleftrightarrow>
         (\<exists>e'. try_body E (clock w) queries existing (w\<lparr>base_dir_exists := True\<rparr>) = Inl e'))) \<and>
   fst (run_tamil_playlist_scraper E w) = Inr ()"
proof (intro conjI impI)
  show "fst (run_tamil_playlist_scraper E w) = Inr ()"
    by (simp add: run_tamil_playlist_scraper_def split: prod.splits sum.splits)
next
  show "fst (fetch_tamil_playlists E queries w) = Inl e \<longleftrightarrow>
      (\<not> isinstance_list queries \<and> e = ValueError) \<or>
      (isinstance_list queries \<and> makedirs_raises E = Some e) \<or>
      (isinstance_list queries \<and> makedirs_raises E = None \<and> output_xlsx w = Unreadable e)"
    by (cases "output_xlsx w")
       (auto simp: fetch_tamil_playlists_def Let_def split: option.splits sum.splits)
next
  assume "isinstance_list queries \<and> makedirs_raises E = None \<and>
    read_existing (output_xlsx w) = Inr existing"
  then show "fst (fetch_tamil_playlists E queries w) = Inr None \<longleftrightarrow>
         (\<exists>e'. try_body E (clock w) queries existing (w\<lparr>base_dir_exists := True\<rparr>) = Inl e')"
    by (auto simp: fetch_tamil_playlists_def Let_def split: option.splits sum.splits)
qed

theorem only_setup_errors_escape_witness:
  "fst (fetch_tamil_playlists failing_env (PyList [PyStr (ustr ''tamil songs'')]) sample_world) = Inr None \<and>
   fst (fetch_tamil_playlists failing_env (PyList [PyStr (ustr ''tamil songs'')]) sample_world) \<noteq> Inl ValueError \<and>
   fst (run_tamil_playlist_scraper failing_env sample_world) = Inr ()"
  using only_setup_errors_escape [of failing_env "PyList [PyStr (ustr ''tamil songs'')]" sample_world ValueError "[]"]
    failing_try
  by (simp add: failing_env_def sample_env_def sample_world_def)

theorem non_list_input_escapes: "fst (fetch_tamil_playlists sample_env PyNone sample_world) = Inl ValueError \<and>
  fst (fetch_tamil_playlists sample_env PyNone sample_world) \<noteq> Inr None"
  by (simp add: fetch_tamil_playlists_def)

text \<open>
  Claim C8. On anything that is not a list the call raises \<^verbatim>\<open>ValueError\<close> and does nothing
  else.
\<close>

theorem non_list_raises_ValueError: "\<not> isinstance_list queries \<Longrightarrow> fetch_tamil_playlists E queries w = (Inl ValueError, w)"
  by (simp add: fetch_tamil_playlists_def)

theorem non_list_raises_ValueError_witness: "\<not> isinstance_list (PyStr (ustr ''tamil songs'')) \<and>
  fetch_tamil_playlists sample_env (PyStr (ustr ''tamil songs'')) sample_world = (Inl ValueError, sample_world)"
  using non_list_raises_ValueError [of "PyStr (ustr ''tamil songs'')" sample_env sample_world] by simp

text \<open>
  Claim C9. Without the input file the entry routine returns normally, having printed the
  generic error line and the \<^verbatim>\<open>FileNotFoundError\<close>, and changed nothing else: the output
  directory and the output file are as they were.
\<close>

theorem missing_queries_file_reported: "queries_xlsx w = Absent \<Longrightarrow>
   run_tamil_playlist_scraper E w =
     (Inr (), w\<lparr>stdout := stdout w @ [UnexpectedErrorMsg, ErrorMsg FileNotFoundError]\<rparr>)"
  by (simp add: run_tamil_playlist_scraper_def run_body_def py_print_def)

theorem missing_queries_file_reported_witness: "queries_xlsx (sample_world\<lparr>queries_xlsx := Absent\<rparr>) = Absent \<and>
   run_tamil_playlist_scraper sample_env (sample_world\<lparr>queries_xlsx := Absent\<rparr>) =
     (Inr (), sample_world\<lparr>queries_xlsx := Absent,
                 stdout := [UnexpectedErrorMsg, ErrorMsg FileNotFoundError]\<rparr>)"
  using missing_queries_file_reported [of "sample_world\<lparr>queries_xlsx := Absent\<rparr>" sample_env]
  by (simp add: sample_world_def)

text \<open>
  Claim C10. An item without a name is read with the empty name, which does not match: no
  row and no error. An item without an identifier whose name matches gives a row with the
  identifier \<^verbatim>\<open>None\<close>. An item without \<^verbatim>\<open>tracks\<close>, or whose \<^verbatim>\<open>tracks\<close> has no \<^verbatim>\<open>total\<close>,
  raises \<^verbatim>\<open>KeyError\<close>; and when such an item is in the response to any of the queries, the
  call returns \<^verbatim>\<open>None\<close> and leaves the output file as it was.
\<close>

theorem missing_fields_behaviour:
  "(map_of d (ustr ''name'') = None \<and> map_of d (ustr ''tracks'') = Some (PyDict d') \<and>
    map_of d' (ustr ''total'') = Some n \<longrightarrow>
      playlist_record A ts q (PyDict d) = Inr None) \<and>
   (map_of d (ustr ''id'') = None \<and> map_of d (ustr ''name'') = Some (PyStr pname) \<and>
    keyword_search A pname \<and> map_of d (ustr ''tracks'') = Some (PyDict d') \<and>
    map_of d' (ustr ''total'') = Some n \<longrightarrow>
      playlist_record A ts q (PyDict d) =
        Inr (Some \<lparr>PlaylistID = PyNone, PlaylistName = PyStr pname, NumSongs = n, Query = q,
                   Language = ustr ''Tamil'', Timestamp = ts\<rparr>)) \<and>
   (map_of d (ustr ''tracks'') = None \<or>
    (map_of d (ustr ''tracks'') = Some (PyDict d') \<and> map_of d' (ustr ''total'') = None) \<longrightarrow>
      playlist_record A ts q (PyDict d) = Inl KeyError) \<and>
   (makedirs_raises E = None \<and> read_existing (output_xlsx w) = Inr existing \<and>
    i < length qs \<and> search_items E i (qs ! i) = Inr items \<and> PyDict d \<in> set items \<and>
    (map_of d (ustr ''tracks'') = None \<or>
     (map_of d (ustr ''tracks'') = Some (PyDict d') \<and> map_of d' (ustr ''total'') = None)) \<longrightarrow>
      fst (fetch_tamil_playlists E (PyList qs) w) = Inr None \<and>
      output_xlsx (snd (fetch_tamil_playlists E (PyList qs) w)) = output_xlsx w)"
proof -
  have raise: "playlist_record B ts' q' (PyDict d) = Inl KeyError"
    if "map_of d (ustr ''tracks'') = None \<or>
        (map_of d (ustr ''tracks'') = Some (PyDict d') \<and> map_of d' (ustr ''total'') = None)"
    for B ts' q'
    using that by (auto simp: playlist_record_def)
  have whole: "fst (fetch_tamil_playlists E (PyList qs) w) = Inr None \<and>
      output_xlsx (snd (fetch_tamil_playlists E (PyList qs) w)) = output_xlsx w"
    if m: "makedirs_raises E = None" and r: "read_existing (output_xlsx w) = Inr existing"
      and i: "i < length qs" and s: "search_items E i (qs ! i) = Inr items"
      and p: "PyDict d \<in> set items"
      and k: "map_of d (ustr ''tracks'') = None \<or>
        (map_of d (ustr ''tracks'') = Some (PyDict d') \<and> map_of d' (ustr ''total'') = None)"
  proof -
    from s p raise [OF k, of "unicode_alnum E" "clock w" "qs ! i"]
    have "search_items E (0 + i) (qs ! i) = Inl KeyError \<or>
         (\<exists>items p. search_items E (0 + i) (qs ! i) = Inr items \<and> p \<in> set items \<and>
            playlist_record (unicode_alnum E) (clock w) (qs ! i) p = Inl KeyError)"
      by auto
    from query_loop_raises [OF i this] obtain e' where
      "query_loop E (clock w) 0 qs [] = Inl e'" by blast
    then show ?thesis
      unfolding fetch_list_unfold [OF m r] by (simp add: py_print_def)
  qed
  show ?thesis
  proof (intro conjI impI)
    assume "map_of d (ustr ''name'') = None \<and> map_of d (ustr ''tracks'') = Some (PyDict d') \<and>
      map_of d' (ustr ''total'') = Some n"
    then show "playlist_record A ts q (PyDict d) = Inr None"
      by (simp add: playlist_record_def keyword_search_empty)
  next
    assume "map_of d (ustr ''id'') = None \<and> map_of d (ustr ''name'') = Some (PyStr pname) \<and>
      keyword_search A pname \<and> map_of d (ustr ''tracks'') = Some (PyDict d') \<and>
      map_of d' (ustr ''total'') = Some n"
    then show "playlist_record A ts q (PyDict d) =
        Inr (Some \<lparr>PlaylistID = PyNone, PlaylistName = PyStr pname, NumSongs = n, Query = q,
                   Language = ustr ''Tamil'', Timestamp = ts\<rparr>)"
      by (simp add: playlist_record_def)
  next
    assume "map_of d (ustr ''tracks'') = None \<or>
      (map_of d (ustr ''tracks'') = Some (PyDict d') \<and> map_of d' (ustr ''total'') = None)"
    then show "playlist_record A ts q (PyDict d) = Inl KeyError" by (rule raise)
  next
    assume a: "makedirs_raises E = None \<and> read_existing (output_xlsx w) = Inr existing \<and>
      i < length qs \<and> search_items E i (qs ! i) = Inr items \<and> PyDict d \<in> set items \<and>
      (map_of d (ustr ''tracks'') = None \<or>
       (map_of d (ustr ''tracks'') = Some (PyDict d') \<and> map_of d' (ustr ''total'') = None))"
    then show "fst (fetch_tamil_playlists E (PyList qs) w) = Inr None" using whole by blast
    from a show "output_xlsx (snd (fetch_tamil_playlists E (PyList qs) w)) = output_xlsx w"
      using whole by blast
  qed
qed

theorem missing_fields_behaviour_witness:
  "playlist_record (unicode_alnum sample_env) (clock sample_world) (PyStr (ustr ''tamil songs''))
     (PyDict [(ustr ''id'', PyStr (ustr ''p5'')),
              (ustr ''tracks'', PyDict [(ustr ''total'', PyInt 9)])]) = Inr None \<and>
   playlist_record (unicode_alnum sample_env) (clock sample_world) (PyStr (ustr ''tamil songs''))
     (PyDict [(ustr ''name'', PyStr (ustr ''Tamil Hits'')),
              (ustr ''tracks'', PyDict [(ustr ''total'', PyInt 9)])]) =
     Inr (Some \<lparr>PlaylistID = PyNone, PlaylistName = PyStr (ustr ''Tamil Hits''),
                NumSongs = PyInt 9, Query = PyStr (ustr ''tamil songs''),
                Language = ustr ''Tamil'', Timestamp = clock sample_world\<rparr>) \<and>
   playlist_record (unicode_alnum sample_env) (clock sample_world) (PyStr (ustr ''tamil songs''))
     (PyDict [(ustr ''id'', PyStr (ustr ''p3'')), (ustr ''name'', PyStr (ustr ''Madras Beats''))]) =
     Inl KeyError \<and>
   fst (fetch_tamil_playlists trackless_env (PyList [PyStr (ustr ''tamil songs'')])
          (sample_world\<lparr>output_xlsx := Sheet [sample_row]\<rparr>)) = Inr None \<and>
   output_xlsx (snd (fetch_tamil_playlists trackless_env (PyList [PyStr (ustr ''tamil songs'')])
          (sample_world\<lparr>output_xlsx := Sheet [sample_row]\<rparr>))) = Sheet [sample_row]"
proof -
  have hit: "keyword_search (unicode_alnum sample_env) (ustr ''Tamil Hits'')" by code_simp
  have a: "playlist_record (unicode_alnum sample_env) (clock sample_world) (PyStr (ustr ''tamil songs''))
     (PyDict [(ustr ''id'', PyStr (ustr ''p5'')),
              (ustr ''tracks'', PyDict [(ustr ''total'', PyInt 9)])]) = Inr None"
    using missing_fields_behaviour [where d = "[(ustr ''id'', PyStr (ustr ''p5'')),
              (ustr ''tracks'', PyDict [(ustr ''total'', PyInt 9)])]"
        and d' = "[(ustr ''total'', PyInt 9)]" and n = "PyInt 9"
        and A = "unicode_alnum sample_env" and ts = "clock sample_world"
        and q = "PyStr (ustr ''tamil songs'')"]
    by (simp add: ustr_def)
  have b: "playlist_record (unicode_alnum sample_env) (clock sample_world) (PyStr (ustr ''tamil songs''))
     (PyDict [(ustr ''name'', PyStr (ustr ''Tamil Hits'')),
              (ustr ''tracks'', PyDict [(ustr ''total'', PyInt 9)])]) =
     Inr (Some \<lparr>PlaylistID = PyNone, PlaylistName = PyStr (ustr ''Tamil Hits''),
                NumSongs = PyInt 9, Query = PyStr (ustr ''tamil songs''),
                Language = ustr ''Tamil'', Timestamp = clock sample_world\<rparr>)"
    using hit missing_fields_behaviour [where d = "[(ustr ''name'', PyStr (ustr ''Tamil Hits'')),
              (ustr ''tracks'', PyDict [(ustr ''total'', PyInt 9)])]"
        and d' = "[(ustr ''total'', PyInt 9)]" and n = "PyInt 9"
        and pname = "ustr ''Tamil Hits''"
        and A = "unicode_alnum sample_env" and ts = "clock sample_world"
        and q = "PyStr (ustr ''tamil songs'')"]
    by (simp add: ustr_def)
  have c: "playlist_record (unicode_alnum sample_env) (clock sample_world) (PyStr (ustr ''tamil songs''))
     (PyDict [(ustr ''id'', PyStr (ustr ''p3'')), (ustr ''name'', PyStr (ustr ''Madras Beats''))]) =
     Inl KeyError"
    using missing_fields_behaviour [where d = "[(ustr ''id'', PyStr (ustr ''p3'')),
                           (ustr ''name'', PyStr (ustr ''Madras Beats''))]"
        and A = "unicode_alnum sample_env" and ts = "clock sample_world"
        and q = "PyStr (ustr ''tamil songs'')"]
    by (simp add: ustr_def)
  have d: "fst (fetch_tamil_playlists trackless_env (PyList [PyStr (ustr ''tamil songs'')])
          (sample_world\<lparr>output_xlsx := Sheet [sample_row]\<rparr>)) = Inr None \<and>
     output_xlsx (snd (fetch_tamil_playlists trackless_env (PyList [PyStr (ustr ''tamil songs'')])
          (sample_world\<lparr>output_xlsx := Sheet [sample_row]\<rparr>))) = Sheet [sample_row]"
    using trackless_items
      missing_fields_behaviour [where d = "[(ustr ''id'', PyStr (ustr ''p3'')),
                       (ustr ''name'', PyStr (ustr ''Madras Beats''))]"
        and E = trackless_env and w = "sample_world\<lparr>output_xlsx := Sheet [sample_row]\<rparr>"
        and existing = "[sample_row]" and i = 0 and qs = "[PyStr (ustr ''tamil songs'')]"
        and items = "[sample_item (ustr ''p1'') (ustr ''Tamil Hits'') 50,
          PyDict [(ustr ''id'', PyStr (ustr ''p3'')), (ustr ''name'', PyStr (ustr ''Madras Beats''))]]"]
    by (simp add: trackless_env_def sample_env_def ustr_def)
  show ?thesis by (intro conjI, rule a, rule b, rule c, rule d [THEN conjunct1], rule d [THEN conjunct2])
qed

end
